theory Spec2Isabelle
  imports Main "HOL-Library.Sublist"
begin

section \<open>The storage layer of EcoBin\<close>

text \<open>
  The class \<open>DatabaseStorage\<close> issues SQL statements through a query builder. The
  relational store is modelled as a record of tables, a table as the list of its rows in
  insertion order, and every method as a function from the store before the call to the
  outcome of the call and the store after it. A thrown \<open>Error\<close> is the left
  summand of the outcome.

  The table declarations live in the schema module, which is not among the sources. A row
  type below has the columns that the storage class reads or writes. Integer columns are
  unbounded integers, timestamps are milliseconds as integers, and a nullable column is an
  \<open>option\<close>. No column default is known: a column that an insert leaves out is stored
  as NULL, a generated key is taken from \<open>newId\<close> and a creation time from \<open>now\<close>.
\<close>

subsection \<open>Rows\<close>

datatype error = Error string

record User =
  u_id :: string
  u_ecoPoints :: "int option"
  u_carbonFootprint :: "string option"
  u_updatedAt :: "int option"

text \<open>
  A property of a values object is left out (\<open>undefined\<close>) or defined; a defined
  property of a nullable column is \<open>null\<close> or a value.
\<close>

datatype 'a property = Undefined | Defined 'a

record UpsertUser =
  uu_id :: string
  uu_ecoPoints :: "int option property"
  uu_carbonFootprint :: "string option property"
  uu_updatedAt :: "int option property"

record WasteEntry =
  we_userId :: string
  we_wasteType :: string
  we_quantity :: string
  we_ecoPointsEarned :: "int option"
  we_createdAt :: int

record InsertWasteEntry =
  iwe_userId :: string
  iwe_wasteType :: string
  iwe_quantity :: string
  iwe_ecoPointsEarned :: "int option"

record PickupSchedule =
  ps_id :: int
  ps_userId :: string
  ps_scheduledDate :: int
  ps_status :: string
  ps_completedAt :: "int option"

record InsertPickupSchedule =
  ips_userId :: string
  ips_scheduledDate :: int
  ips_status :: string

record CommunityReport =
  cr_id :: int
  cr_description :: string
  cr_status :: string
  cr_createdAt :: int
  cr_resolvedAt :: "int option"

record InsertCommunityReport =
  icr_description :: string
  icr_status :: string

record CleanupEvent =
  ce_id :: int
  ce_eventDate :: int
  ce_status :: string
  ce_currentParticipants :: int

record InsertCleanupEvent =
  ice_eventDate :: int
  ice_status :: string
  ice_currentParticipants :: int

record EventParticipant =
  ep_eventId :: int
  ep_userId :: string

record EcoChallenge =
  ec_id :: int
  ec_isActive :: bool
  ec_endDate :: int

record UserChallengeProgress =
  ucp_userId :: string
  ucp_challengeId :: int
  ucp_currentProgress :: int
  ucp_createdAt :: int

record Reward =
  r_id :: int
  r_ecoPointsCost :: int
  r_validUntil :: "int option"
  r_isActive :: bool

record UserReward =
  ur_userId :: string
  ur_rewardId :: int
  ur_redemptionCode :: string
  ur_expiresAt :: "int option"
  ur_redeemedAt :: int

subsection \<open>The store and what a call takes from outside it\<close>

record db =
  users :: "User list"
  wasteEntries :: "WasteEntry list"
  pickupSchedules :: "PickupSchedule list"
  communityReports :: "CommunityReport list"
  cleanupEvents :: "CleanupEvent list"
  eventParticipants :: "EventParticipant list"
  ecoChallenges :: "EcoChallenge list"
  userChallengeProgress :: "UserChallengeProgress list"
  rewards :: "Reward list"
  userRewards :: "UserReward list"

text \<open>
  \<open>now\<close> is the clock (\<open>Date.now()\<close>, \<open>new Date()\<close>), \<open>newId\<close> the key the
  database generates for an inserted row, and \<open>random36\<close> the string
  \<open>Math.random().toString(36)\<close>.
\<close>

record env =
  now :: int
  newId :: int
  random36 :: string

subsection \<open>Statements of the query builder\<close>

text \<open>\<open>const [x] = await ...\<close>: the first row of a result, \<open>undefined\<close> when there is none.\<close>

definition first_row :: "'a list \<Rightarrow> 'a option" where
  "first_row xs = (case xs of [] \<Rightarrow> None | x # _ \<Rightarrow> Some x)"

text \<open>\<open>update(t).set(f).where(p)\<close>: every row that satisfies \<open>p\<close> is changed by \<open>f\<close>.\<close>

definition update_where :: "('a \<Rightarrow> bool) \<Rightarrow> ('a \<Rightarrow> 'a) \<Rightarrow> 'a list \<Rightarrow> 'a list" where
  "update_where p f t = map (\<lambda>r. if p r then f r else r) t"

text \<open>SQL arithmetic on a nullable integer column: NULL stays NULL.\<close>

definition sql_plus :: "int option \<Rightarrow> int \<Rightarrow> int option" where
  "sql_plus c n = (case c of None \<Rightarrow> None | Some v \<Rightarrow> Some (v + n))"

definition sql_minus :: "int option \<Rightarrow> int \<Rightarrow> int option" where
  "sql_minus c n = (case c of None \<Rightarrow> None | Some v \<Rightarrow> Some (v - n))"

text \<open>\<open>x || 0\<close> on a nullable integer: \<open>null\<close>, \<open>undefined\<close> and \<open>0\<close> give \<open>0\<close>.\<close>

definition or_zero :: "int option \<Rightarrow> int" where
  "or_zero c = (case c of None \<Rightarrow> 0 | Some v \<Rightarrow> if v = 0 then 0 else v)"

subsection \<open>Strings\<close>

definition digit_char :: "nat \<Rightarrow> char" where
  "digit_char n = ''0123456789'' ! n"

fun digits :: "nat \<Rightarrow> string" where
  "digits n = (if n < 10 then [digit_char n] else digits (n div 10) @ [digit_char (n mod 10)])"

text \<open>The decimal text of an integer, as a template literal writes a number.\<close>

definition show_int :: "int \<Rightarrow> string" where
  "show_int i = (if i < 0 then CHR ''-'' # digits (nat (- i)) else digits (nat i))"

text \<open>\<open>s.substr(start, len)\<close> for non-negative arguments.\<close>

definition substr :: "nat \<Rightarrow> nat \<Rightarrow> string \<Rightarrow> string" where
  "substr start len s = take len (drop start s)"

text \<open>\<open>toUpperCase\<close> on ASCII text: the letters a to z change, nothing else does.\<close>

definition upper_char :: "char \<Rightarrow> char" where
  "upper_char c =
     (case map_of (zip ''abcdefghijklmnopqrstuvwxyz'' ''ABCDEFGHIJKLMNOPQRSTUVWXYZ'') c of
        None \<Rightarrow> c
      | Some u \<Rightarrow> u)"

definition toUpperCase :: "string \<Rightarrow> string" where
  "toUpperCase s = map upper_char s"

subsection \<open>Users\<close>

definition getUser :: "db \<Rightarrow> string \<Rightarrow> User option" where
  "getUser d i = first_row (filter (\<lambda>u. u_id u = i) (users d))"

text \<open>
  \<open>insert(users).values(userData).onConflictDoUpdate(target: users.id, set: ...)\<close>
  with \<open>set\<close> the properties of \<open>userData\<close> and \<open>updatedAt: new Date()\<close>. On a
  conflict a defined property is written, \<open>null\<close> too, and the query builder skips a
  property that is left out: the column keeps its value.
\<close>

definition stored :: "'a option property \<Rightarrow> 'a option" where
  "stored x = (case x of Undefined \<Rightarrow> None | Defined v \<Rightarrow> v)"

definition written :: "'a option property \<Rightarrow> 'a option \<Rightarrow> 'a option" where
  "written x old = (case x of Undefined \<Rightarrow> old | Defined v \<Rightarrow> v)"

definition upsertUser :: "env \<Rightarrow> UpsertUser \<Rightarrow> db \<Rightarrow> User \<times> db" where
  "upsertUser e userData d =
     (case first_row (filter (\<lambda>u. u_id u = uu_id userData) (users d)) of
        None \<Rightarrow>
          let user = \<lparr>u_id = uu_id userData,
                      u_ecoPoints = stored (uu_ecoPoints userData),
                      u_carbonFootprint = stored (uu_carbonFootprint userData),
                      u_updatedAt = stored (uu_updatedAt userData)\<rparr>
          in (user, d\<lparr>users := users d @ [user]\<rparr>)
      | Some old \<Rightarrow>
          let upd = (\<lambda>u. u\<lparr>u_ecoPoints := written (uu_ecoPoints userData) (u_ecoPoints u),
                            u_carbonFootprint :=
                              written (uu_carbonFootprint userData) (u_carbonFootprint u),
                            u_updatedAt := Some (now e)\<rparr>)
          in (upd old,
              d\<lparr>users := update_where (\<lambda>u. u_id u = uu_id userData) upd (users d)\<rparr>))"

subsection \<open>Waste entries\<close>

definition createWasteEntry :: "env \<Rightarrow> InsertWasteEntry \<Rightarrow> db \<Rightarrow> WasteEntry \<times> db" where
  "createWasteEntry e entry d =
     (let wasteEntry =
            \<lparr>we_userId = iwe_userId entry,
             we_wasteType = iwe_wasteType entry,
             we_quantity = iwe_quantity entry,
             we_ecoPointsEarned = iwe_ecoPointsEarned entry,
             we_createdAt = now e\<rparr>;
          d1 = d\<lparr>wasteEntries := wasteEntries d @ [wasteEntry]\<rparr>;
          d2 = d1\<lparr>users :=
                 update_where (\<lambda>u. u_id u = iwe_userId entry)
                   (\<lambda>u. u\<lparr>u_ecoPoints :=
                            sql_plus (u_ecoPoints u) (or_zero (iwe_ecoPointsEarned entry))\<rparr>)
                   (users d1)\<rparr>
      in (wasteEntry, d2))"

text \<open>
  \<open>orderBy(desc(c))\<close> is the reversed stable sort on \<open>c\<close>; SQL leaves the order of
  rows with equal keys open.
\<close>

definition getUserWasteEntries :: "db \<Rightarrow> string \<Rightarrow> WasteEntry list" where
  "getUserWasteEntries d userId =
     rev (sort_key we_createdAt (filter (\<lambda>w. we_userId w = userId) (wasteEntries d)))"

definition getWasteEntriesByDateRange :: "db \<Rightarrow> string \<Rightarrow> int \<Rightarrow> int \<Rightarrow> WasteEntry list" where
  "getWasteEntriesByDateRange d userId startDate endDate =
     rev (sort_key we_createdAt
       (filter (\<lambda>w. we_userId w = userId \<and> startDate \<le> we_createdAt w \<and> we_createdAt w \<le> endDate)
          (wasteEntries d)))"

subsection \<open>Pickup schedules\<close>

definition createPickupSchedule ::
  "env \<Rightarrow> InsertPickupSchedule \<Rightarrow> db \<Rightarrow> PickupSchedule \<times> db" where
  "createPickupSchedule e schedule d =
     (let pickupSchedule =
            \<lparr>ps_id = newId e,
             ps_userId = ips_userId schedule,
             ps_scheduledDate = ips_scheduledDate schedule,
             ps_status = ips_status schedule,
             ps_completedAt = None\<rparr>
      in (pickupSchedule, d\<lparr>pickupSchedules := pickupSchedules d @ [pickupSchedule]\<rparr>))"

definition getUserPickupSchedules :: "db \<Rightarrow> string \<Rightarrow> PickupSchedule list" where
  "getUserPickupSchedules d userId =
     rev (sort_key ps_scheduledDate (filter (\<lambda>s. ps_userId s = userId) (pickupSchedules d)))"

text \<open>
  In \<open>set(status, completedAt: c ? new Date() : undefined)\<close> the query builder skips a
  property that is \<open>undefined\<close>: the column keeps its value.
\<close>

definition updatePickupScheduleStatus ::
  "env \<Rightarrow> int \<Rightarrow> string \<Rightarrow> db \<Rightarrow> PickupSchedule option \<times> db" where
  "updatePickupScheduleStatus e i status d =
     (let upd = (\<lambda>s. s\<lparr>ps_status := status,
                         ps_completedAt :=
                           (if status = ''completed'' then Some (now e) else ps_completedAt s)\<rparr>)
      in (first_row (map upd (filter (\<lambda>s. ps_id s = i) (pickupSchedules d))),
          d\<lparr>pickupSchedules := update_where (\<lambda>s. ps_id s = i) upd (pickupSchedules d)\<rparr>))"

subsection \<open>Community reports\<close>

definition createCommunityReport ::
  "env \<Rightarrow> InsertCommunityReport \<Rightarrow> db \<Rightarrow> CommunityReport \<times> db" where
  "createCommunityReport e report d =
     (let communityReport =
            \<lparr>cr_id = newId e,
             cr_description = icr_description report,
             cr_status = icr_status report,
             cr_createdAt = now e,
             cr_resolvedAt = None\<rparr>
      in (communityReport, d\<lparr>communityReports := communityReports d @ [communityReport]\<rparr>))"

definition getCommunityReports :: "db \<Rightarrow> nat option \<Rightarrow> CommunityReport list" where
  "getCommunityReports d limit =
     take (case limit of None \<Rightarrow> 50 | Some n \<Rightarrow> n)
       (rev (sort_key cr_createdAt (communityReports d)))"

definition updateCommunityReportStatus ::
  "env \<Rightarrow> int \<Rightarrow> string \<Rightarrow> db \<Rightarrow> CommunityReport option \<times> db" where
  "updateCommunityReportStatus e i status d =
     (let upd = (\<lambda>r. r\<lparr>cr_status := status,
                         cr_resolvedAt :=
                           (if status = ''resolved'' then Some (now e) else cr_resolvedAt r)\<rparr>)
      in (first_row (map upd (filter (\<lambda>r. cr_id r = i) (communityReports d))),
          d\<lparr>communityReports := update_where (\<lambda>r. cr_id r = i) upd (communityReports d)\<rparr>))"

subsection \<open>Cleanup events\<close>

definition createCleanupEvent :: "env \<Rightarrow> InsertCleanupEvent \<Rightarrow> db \<Rightarrow> CleanupEvent \<times> db" where
  "createCleanupEvent e event d =
     (let cleanupEvent =
            \<lparr>ce_id = newId e,
             ce_eventDate = ice_eventDate event,
             ce_status = ice_status event,
             ce_currentParticipants = ice_currentParticipants event\<rparr>
      in (cleanupEvent, d\<lparr>cleanupEvents := cleanupEvents d @ [cleanupEvent]\<rparr>))"

definition getUpcomingCleanupEvents :: "env \<Rightarrow> db \<Rightarrow> CleanupEvent list" where
  "getUpcomingCleanupEvents e d =
     sort_key ce_eventDate
       (filter (\<lambda>c. ce_status c = ''upcoming'' \<and> now e \<le> ce_eventDate c) (cleanupEvents d))"

text \<open>
  Modelled from the spec: the unique key of the table \<open>eventParticipants\<close>, which the
  schema module declares and the sources do not show. The spec keys a join on the pair
  (eventId, userId), so a new row conflicts with a stored row of the same pair.
\<close>

definition eventParticipants_conflict :: "EventParticipant \<Rightarrow> EventParticipant \<Rightarrow> bool" where
  "eventParticipants_conflict new old =
     (ep_eventId old = ep_eventId new \<and> ep_userId old = ep_userId new)"

definition joinCleanupEvent :: "int \<Rightarrow> string \<Rightarrow> db \<Rightarrow> unit \<times> db" where
  "joinCleanupEvent eventId userId d =
     (let row = \<lparr>ep_eventId = eventId, ep_userId = userId\<rparr>;
          d1 = (if list_ex (eventParticipants_conflict row) (eventParticipants d)
                then d
                else d\<lparr>eventParticipants := eventParticipants d @ [row]\<rparr>);
          d2 = d1\<lparr>cleanupEvents :=
                 update_where (\<lambda>c. ce_id c = eventId)
                   (\<lambda>c. c\<lparr>ce_currentParticipants := ce_currentParticipants c + 1\<rparr>)
                   (cleanupEvents d1)\<rparr>
      in ((), d2))"

subsection \<open>Challenges\<close>

definition getActiveChallenges :: "db \<Rightarrow> EcoChallenge list" where
  "getActiveChallenges d = sort_key ec_endDate (filter (\<lambda>c. ec_isActive c) (ecoChallenges d))"

definition getUserChallengeProgress :: "db \<Rightarrow> string \<Rightarrow> UserChallengeProgress list" where
  "getUserChallengeProgress d userId =
     rev (sort_key ucp_createdAt
       (filter (\<lambda>p. ucp_userId p = userId) (userChallengeProgress d)))"

text \<open>
  The conflict target of the upsert is written in the source:
  \<open>[userChallengeProgress.userId, userChallengeProgress.challengeId]\<close>.
\<close>

definition updateChallengeProgress :: "env \<Rightarrow> string \<Rightarrow> int \<Rightarrow> int \<Rightarrow> db \<Rightarrow> unit \<times> db" where
  "updateChallengeProgress e userId challengeId progress d =
     (let target = (\<lambda>p. ucp_userId p = userId \<and> ucp_challengeId p = challengeId)
      in if list_ex target (userChallengeProgress d)
         then ((), d\<lparr>userChallengeProgress :=
                      update_where target
                        (\<lambda>p. p\<lparr>ucp_currentProgress := ucp_currentProgress p + progress\<rparr>)
                        (userChallengeProgress d)\<rparr>)
         else ((), d\<lparr>userChallengeProgress :=
                      userChallengeProgress d @
                        [\<lparr>ucp_userId = userId,
                          ucp_challengeId = challengeId,
                          ucp_currentProgress = progress,
                          ucp_createdAt = now e\<rparr>]\<rparr>))"

subsection \<open>Rewards\<close>

definition getAvailableRewards :: "db \<Rightarrow> Reward list" where
  "getAvailableRewards d = sort_key r_ecoPointsCost (filter (\<lambda>r. r_isActive r) (rewards d))"

definition redemptionCode :: "env \<Rightarrow> string" where
  "redemptionCode e =
     ''ECO-'' @ show_int (now e) @ ''-'' @ toUpperCase (substr 2 6 (random36 e))"

definition redeemReward :: "env \<Rightarrow> string \<Rightarrow> int \<Rightarrow> db \<Rightarrow> (error + UserReward) \<times> db" where
  "redeemReward e userId rewardId d =
     (case first_row (filter (\<lambda>r. r_id r = rewardId) (rewards d)) of
        None \<Rightarrow> (Inl (Error ''Reward not found''), d)
      | Some reward \<Rightarrow>
          (case first_row (filter (\<lambda>u. u_id u = userId) (users d)) of
             None \<Rightarrow> (Inl (Error ''Insufficient EcoPoints''), d)
           | Some user \<Rightarrow>
               if or_zero (u_ecoPoints user) < r_ecoPointsCost reward
               then (Inl (Error ''Insufficient EcoPoints''), d)
               else
                 let d1 = d\<lparr>users :=
                            update_where (\<lambda>u. u_id u = userId)
                              (\<lambda>u. u\<lparr>u_ecoPoints :=
                                       sql_minus (u_ecoPoints u) (r_ecoPointsCost reward)\<rparr>)
                              (users d)\<rparr>;
                     userReward =
                       \<lparr>ur_userId = userId,
                        ur_rewardId = rewardId,
                        ur_redemptionCode = redemptionCode e,
                        ur_expiresAt = r_validUntil reward,
                        ur_redeemedAt = now e\<rparr>
                 in (Inr userReward, d1\<lparr>userRewards := userRewards d1 @ [userReward]\<rparr>)))"

definition getUserRewards :: "db \<Rightarrow> string \<Rightarrow> UserReward list" where
  "getUserRewards d userId =
     rev (sort_key ur_redeemedAt (filter (\<lambda>r. ur_userId r = userId) (userRewards d)))"

subsection \<open>Analytics\<close>

text \<open>
  The numbers of JavaScript are doubles. Their arithmetic is not fixed here: the type of
  the numbers is a parameter, and with it come the built-ins that the method applies to
  numbers, which are the sum of two numbers, the number 0, the test whether a number is
  truthy (every number but 0 and NaN is), \<open>parseFloat\<close>, and the text of a number as
  string concatenation writes it.
\<close>

record 'n Number =
  num_add :: "'n \<Rightarrow> 'n \<Rightarrow> 'n"
  num_zero :: 'n
  num_truthy :: "'n \<Rightarrow> bool"
  parseFloat :: "string \<Rightarrow> 'n"
  num_toString :: "'n \<Rightarrow> string"

text \<open>
  What \<open>acc[k]\<close> can be on the accumulator of \<open>reduce\<close>: a number or a string that
  the loop has stored, or a property that the object literal \<open>{}\<close> inherits from
  \<open>Object.prototype\<close>, which is a built-in function or, for \<open>__proto__\<close>, the
  prototype itself.
\<close>

datatype 'n js_value = Num 'n | Str string | Builtin string | ObjectPrototype

definition Object_prototype :: "string \<Rightarrow> 'n js_value option" where
  "Object_prototype k =
     (if k = ''__proto__'' then Some ObjectPrototype
      else if k = ''constructor'' then Some (Builtin ''Object'')
      else if k \<in> set [''__defineGetter__'', ''__defineSetter__'', ''hasOwnProperty'',
                        ''__lookupGetter__'', ''__lookupSetter__'', ''isPrototypeOf'',
                        ''propertyIsEnumerable'', ''toString'', ''valueOf'',
                        ''toLocaleString'']
      then Some (Builtin k)
      else None)"

text \<open>\<open>acc[k]\<close>: an own property first, an inherited one otherwise.\<close>

definition get_property :: "(string \<rightharpoonup> 'n js_value) \<Rightarrow> string \<Rightarrow> 'n js_value option" where
  "get_property acc k = (case acc k of Some v \<Rightarrow> Some v | None \<Rightarrow> Object_prototype k)"

text \<open>
  \<open>acc[k] = v\<close> for a number or a string \<open>v\<close>: an own property is written, but for
  \<open>__proto__\<close> the inherited setter takes the value and ignores what is not an object.
\<close>

definition set_property ::
  "(string \<rightharpoonup> 'n js_value) \<Rightarrow> string \<Rightarrow> 'n js_value \<Rightarrow> (string \<rightharpoonup> 'n js_value)" where
  "set_property acc k v = (if k = ''__proto__'' then acc else acc(k \<mapsto> v))"

text \<open>
  \<open>x || 0\<close> on a property: \<open>undefined\<close>, a number that is not truthy and the empty
  string give \<open>0\<close>, everything else is itself.
\<close>

definition or_zero_value :: "'n Number \<Rightarrow> 'n js_value option \<Rightarrow> 'n js_value" where
  "or_zero_value N x =
     (case x of
        None \<Rightarrow> Num (num_zero N)
      | Some (Num n) \<Rightarrow> if num_truthy N n then Num n else Num (num_zero N)
      | Some (Str s) \<Rightarrow> if s = [] then Num (num_zero N) else Str s
      | Some v \<Rightarrow> v)"

text \<open>
  \<open>v + q\<close> for a number \<open>q\<close>: the sum when \<open>v\<close> is a number, and otherwise the text
  of \<open>v\<close> followed by the text of \<open>q\<close>. The text of a built-in function and of the
  prototype are as Node writes them.
\<close>

definition js_plus :: "'n Number \<Rightarrow> 'n js_value \<Rightarrow> 'n \<Rightarrow> 'n js_value" where
  "js_plus N v q =
     (case v of
        Num n \<Rightarrow> Num (num_add N n q)
      | Str s \<Rightarrow> Str (s @ num_toString N q)
      | Builtin name \<Rightarrow>
          Str (''function '' @ name @ ''() { [native code] }'' @ num_toString N q)
      | ObjectPrototype \<Rightarrow> Str (''[object Object]'' @ num_toString N q))"

record 'n UserAnalytics =
  totalWasteEntries :: nat
  totalEcoPoints :: int
  wasteByType :: "string \<rightharpoonup> 'n js_value"
  carbonFootprint :: 'n

text \<open>\<open>s || "0"\<close>: \<open>null\<close>, \<open>undefined\<close> and the empty string give \<open>"0"\<close>.\<close>

definition or_zero_str :: "string option \<Rightarrow> string" where
  "or_zero_str c = (case c of None \<Rightarrow> ''0'' | Some s \<Rightarrow> if s = [] then ''0'' else s)"

definition reduce_step ::
  "'n Number \<Rightarrow> (string \<rightharpoonup> 'n js_value) \<Rightarrow> WasteEntry \<Rightarrow> (string \<rightharpoonup> 'n js_value)" where
  "reduce_step N acc entry =
     set_property acc (we_wasteType entry)
       (js_plus N (or_zero_value N (get_property acc (we_wasteType entry)))
          (parseFloat N (we_quantity entry)))"

definition getUserAnalytics :: "'n Number \<Rightarrow> db \<Rightarrow> string \<Rightarrow> 'n UserAnalytics" where
  "getUserAnalytics N d userId =
     (let user = first_row (filter (\<lambda>u. u_id u = userId) (users d));
          wasteEntriesData = filter (\<lambda>w. we_userId w = userId) (wasteEntries d)
      in \<lparr>totalWasteEntries = length wasteEntriesData,
          totalEcoPoints = or_zero (case user of None \<Rightarrow> None | Some u \<Rightarrow> u_ecoPoints u),
          wasteByType = foldl (reduce_step N) Map.empty wasteEntriesData,
          carbonFootprint =
            parseFloat N
              (or_zero_str (case user of None \<Rightarrow> None | Some u \<Rightarrow> u_carbonFootprint u))\<rparr>)"

text \<open>
  The total that the loop keeps for one waste type whose property is a number: each
  step is \<open>(a || 0) + q\<close>.
\<close>

fun js_sum :: "'n Number \<Rightarrow> 'n \<Rightarrow> 'n list \<Rightarrow> 'n" where
  "js_sum N a [] = a"
| "js_sum N a (q # qs) =
     js_sum N (num_add N (if num_truthy N a then a else num_zero N) q) qs"

subsection \<open>Every method as a call\<close>

datatype call =
    GetUser string
  | UpsertUser UpsertUser
  | CreateWasteEntry InsertWasteEntry
  | GetUserWasteEntries string
  | GetWasteEntriesByDateRange string int int
  | CreatePickupSchedule InsertPickupSchedule
  | GetUserPickupSchedules string
  | UpdatePickupScheduleStatus int string
  | CreateCommunityReport InsertCommunityReport
  | GetCommunityReports "nat option"
  | UpdateCommunityReportStatus int string
  | CreateCleanupEvent InsertCleanupEvent
  | GetUpcomingCleanupEvents
  | JoinCleanupEvent int string
  | GetActiveChallenges
  | GetUserChallengeProgress string
  | UpdateChallengeProgress string int int
  | GetAvailableRewards
  | RedeemReward string int
  | GetUserRewards string
  | GetUserAnalytics string

text \<open>
  The store after a call, whether the call returns or throws. A method that only issues
  \<open>select\<close> statements leaves the store as it is.
\<close>

fun store_after :: "env \<Rightarrow> call \<Rightarrow> db \<Rightarrow> db" where
  "store_after e (GetUser i) d = d"
| "store_after e (UpsertUser userData) d = snd (upsertUser e userData d)"
| "store_after e (CreateWasteEntry entry) d = snd (createWasteEntry e entry d)"
| "store_after e (GetUserWasteEntries userId) d = d"
| "store_after e (GetWasteEntriesByDateRange userId startDate endDate) d = d"
| "store_after e (CreatePickupSchedule schedule) d = snd (createPickupSchedule e schedule d)"
| "store_after e (GetUserPickupSchedules userId) d = d"
| "store_after e (UpdatePickupScheduleStatus i status) d =
     snd (updatePickupScheduleStatus e i status d)"
| "store_after e (CreateCommunityReport report) d = snd (createCommunityReport e report d)"
| "store_after e (GetCommunityReports limit) d = d"
| "store_after e (UpdateCommunityReportStatus i status) d =
     snd (updateCommunityReportStatus e i status d)"
| "store_after e (CreateCleanupEvent event) d = snd (createCleanupEvent e event d)"
| "store_after e GetUpcomingCleanupEvents d = d"
| "store_after e (JoinCleanupEvent eventId userId) d = snd (joinCleanupEvent eventId userId d)"
| "store_after e GetActiveChallenges d = d"
| "store_after e (GetUserChallengeProgress userId) d = d"
| "store_after e (UpdateChallengeProgress userId challengeId progress) d =
     snd (updateChallengeProgress e userId challengeId progress d)"
| "store_after e GetAvailableRewards d = d"
| "store_after e (RedeemReward userId rewardId) d = snd (redeemReward e userId rewardId d)"
| "store_after e (GetUserRewards userId) d = d"
| "store_after e (GetUserAnalytics userId) d = d"

text \<open>
  No row of the store \<open>d\<close> is missing from \<open>d'\<close>: in every table the rows of \<open>d\<close>
  are still there, in their places. A row is told by its key where the table has one
  (a row may have other fields updated), and by all its fields where the storage class
  never updates the table.
\<close>

definition rows_kept :: "db \<Rightarrow> db \<Rightarrow> bool" where
  "rows_kept d d' =
     (prefix (map u_id (users d)) (map u_id (users d')) \<and>
      prefix (wasteEntries d) (wasteEntries d') \<and>
      prefix (map ps_id (pickupSchedules d)) (map ps_id (pickupSchedules d')) \<and>
      prefix (map cr_id (communityReports d)) (map cr_id (communityReports d')) \<and>
      prefix (map ce_id (cleanupEvents d)) (map ce_id (cleanupEvents d')) \<and>
      prefix (eventParticipants d) (eventParticipants d') \<and>
      prefix (ecoChallenges d) (ecoChallenges d') \<and>
      prefix (map (\<lambda>p. (ucp_userId p, ucp_challengeId p)) (userChallengeProgress d))
             (map (\<lambda>p. (ucp_userId p, ucp_challengeId p)) (userChallengeProgress d')) \<and>
      prefix (rewards d) (rewards d') \<and>
      prefix (userRewards d) (userRewards d'))"

subsection \<open>The lifecycle of a report, as the glossary words it\<close>

text \<open>
  This predicate follows the words of the specification, not the code: a status moves
  from reported to investigating, and from investigating to resolved. It is what
  \<open>updateCommunityReportStatus\<close> is compared with.
\<close>

definition lifecycle_step :: "string \<Rightarrow> string \<Rightarrow> bool" where
  "lifecycle_step old new =
     ((old = ''reported'' \<and> new = ''investigating'') \<or>
      (old = ''investigating'' \<and> new = ''resolved''))"

subsection \<open>A small store for the examples\<close>

definition demo_db :: db where
  "demo_db =
     \<lparr>users =
        [\<lparr>u_id = ''alice'', u_ecoPoints = Some 120, u_carbonFootprint = Some ''12'',
          u_updatedAt = None\<rparr>,
         \<lparr>u_id = ''bob'', u_ecoPoints = Some 30, u_carbonFootprint = None,
          u_updatedAt = None\<rparr>],
      wasteEntries =
        [\<lparr>we_userId = ''alice'', we_wasteType = ''plastic'', we_quantity = ''2'',
          we_ecoPointsEarned = Some 10, we_createdAt = 100\<rparr>,
         \<lparr>we_userId = ''bob'', we_wasteType = ''glass'', we_quantity = ''7'',
          we_ecoPointsEarned = Some 5, we_createdAt = 200\<rparr>,
         \<lparr>we_userId = ''alice'', we_wasteType = ''plastic'', we_quantity = ''3'',
          we_ecoPointsEarned = None, we_createdAt = 300\<rparr>],
      pickupSchedules = [],
      communityReports =
        [\<lparr>cr_id = 1, cr_description = ''Overflowing bin'', cr_status = ''resolved'',
          cr_createdAt = 400, cr_resolvedAt = Some 500\<rparr>],
      cleanupEvents =
        [\<lparr>ce_id = 5, ce_eventDate = 900, ce_status = ''upcoming'',
          ce_currentParticipants = 3\<rparr>],
      eventParticipants = [],
      ecoChallenges = [],
      userChallengeProgress =
        [\<lparr>ucp_userId = ''alice'', ucp_challengeId = 2, ucp_currentProgress = 10,
          ucp_createdAt = 600\<rparr>],
      rewards =
        [\<lparr>r_id = 1, r_ecoPointsCost = 50, r_validUntil = None, r_isActive = True\<rparr>],
      userRewards = []\<rparr>"

definition demo_env :: env where
  "demo_env = \<lparr>now = 1700000000000, newId = 8, random36 = ''0.4fzyo82mvyr''\<rparr>"

text \<open>
  A second store for the corner cases: a user whose balance is NULL, a waste type named
  like an inherited property, and a reward with a negative cost.
\<close>

definition corner_db :: db where
  "corner_db =
     \<lparr>users =
        [\<lparr>u_id = ''carol'', u_ecoPoints = None, u_carbonFootprint = None,
          u_updatedAt = None\<rparr>],
      wasteEntries =
        [\<lparr>we_userId = ''carol'', we_wasteType = ''toString'', we_quantity = ''2'',
          we_ecoPointsEarned = Some 10, we_createdAt = 100\<rparr>],
      pickupSchedules = [],
      communityReports = [],
      cleanupEvents = [],
      eventParticipants = [],
      ecoChallenges = [],
      userChallengeProgress = [],
      rewards =
        [\<lparr>r_id = 3, r_ecoPointsCost = - 5, r_validUntil = None, r_isActive = True\<rparr>,
         \<lparr>r_id = 4, r_ecoPointsCost = 50, r_validUntil = None, r_isActive = True\<rparr>],
      userRewards = []\<rparr>"

text \<open>
  Numbers for the examples: integers, on which the arithmetic of doubles is exact below
  \<open>2^53\<close>, with a \<open>parseFloat\<close> that reads an unsigned integer literal.
\<close>

definition demo_Number :: "int Number" where
  "demo_Number =
     \<lparr>num_add = (\<lambda>a b. a + b),
      num_zero = 0,
      num_truthy = (\<lambda>a. a \<noteq> 0),
      parseFloat = (\<lambda>s. foldl (\<lambda>n c. 10 * n + (of_char c - 48)) 0 s),
      num_toString = show_int\<rparr>"

section \<open>Properties\<close>

subsection \<open>Statements on one table\<close>

lemma first_row_update_where:
  assumes "\<And>r. p (f r) = p r"
  shows "first_row (filter p (update_where p f t)) = map_option f (first_row (filter p t))"
  using assms by (induction t) (simp_all add: first_row_def update_where_def)

subsection \<open>Redeeming a reward\<close>

lemma redeemReward_not_found:
  assumes "first_row (filter (\<lambda>r. r_id r = rewardId) (rewards d)) = None"
  shows "redeemReward e userId rewardId d = (Inl (Error ''Reward not found''), d)"
  using assms by (simp add: redeemReward_def)


lemma redeemReward_insufficient:
  assumes "first_row (filter (\<lambda>r. r_id r = rewardId) (rewards d)) = Some reward"
    and "getUser d userId = Some user"
    and "or_zero (u_ecoPoints user) < r_ecoPointsCost reward"
  shows "redeemReward e userId rewardId d = (Inl (Error ''Insufficient EcoPoints''), d)"
  using assms by (simp add: redeemReward_def getUser_def)

lemma redeemReward_success:
  assumes "first_row (filter (\<lambda>r. r_id r = rewardId) (rewards d)) = Some reward"
    and "getUser d userId = Some user"
    and "\<not> or_zero (u_ecoPoints user) < r_ecoPointsCost reward"
  shows "redeemReward e userId rewardId d =
           (Inr \<lparr>ur_userId = userId, ur_rewardId = rewardId,
                 ur_redemptionCode = redemptionCode e,
                 ur_expiresAt = r_validUntil reward, ur_redeemedAt = now e\<rparr>,
            d\<lparr>users := update_where (\<lambda>u. u_id u = userId)
                          (\<lambda>u. u\<lparr>u_ecoPoints :=
                                   sql_minus (u_ecoPoints u) (r_ecoPointsCost reward)\<rparr>)
                          (users d),
              userRewards := userRewards d @
                [\<lparr>ur_userId = userId, ur_rewardId = rewardId,
                  ur_redemptionCode = redemptionCode e,
                  ur_expiresAt = r_validUntil reward, ur_redeemedAt = now e\<rparr>]\<rparr>)"
  using assms by (simp add: redeemReward_def getUser_def Let_def)

lemma getUser_after_deduction:
  "getUser (d\<lparr>users := update_where (\<lambda>u. u_id u = userId)
                          (\<lambda>u. u\<lparr>u_ecoPoints := sql_minus (u_ecoPoints u) c\<rparr>) (users d),
              userRewards := rs\<rparr>) userId =
   map_option (\<lambda>u. u\<lparr>u_ecoPoints := sql_minus (u_ecoPoints u) c\<rparr>) (getUser d userId)"
  by (simp add: getUser_def first_row_update_where)




text \<open>
  Claim C4. When \<open>redeemReward\<close> returns for a user whose balance is a non-negative
  integer, the balance of that user after the call is a non-negative integer too: the
  comparison with the cost comes before the deduction.
\<close>

theorem redeemReward_balance_stays_nonnegative:
  assumes user: "getUser d userId = Some user"
    and points: "u_ecoPoints user = Some p"
    and nonneg: "0 \<le> p"
    and returns: "redeemReward e userId rewardId d = (Inr row, d')"
  shows "\<exists>user' q. getUser d' userId = Some user' \<and> u_ecoPoints user' = Some q \<and> 0 \<le> q"
proof (cases "first_row (filter (\<lambda>r. r_id r = rewardId) (rewards d))")
  case None
  with returns show ?thesis
    by (simp add: redeemReward_not_found)
next
  case (Some reward)
  show ?thesis
  proof (cases "or_zero (u_ecoPoints user) < r_ecoPointsCost reward")
    case True
    with Some user returns show ?thesis
      by (simp add: redeemReward_insufficient)
  next
    case False
    with points have enough: "r_ecoPointsCost reward \<le> p"
      by (simp add: or_zero_def)
    from returns redeemReward_success [OF Some user False, of e]
    have "getUser d' userId =
            map_option (\<lambda>u. u\<lparr>u_ecoPoints := sql_minus (u_ecoPoints u) (r_ecoPointsCost reward)\<rparr>)
              (getUser d userId)"
      by (auto simp add: getUser_after_deduction)
    with user points
    have "getUser d' userId = Some (user\<lparr>u_ecoPoints := Some (p - r_ecoPointsCost reward)\<rparr>)"
      by (simp add: sql_minus_def)
    with enough show ?thesis by simp
  qed
qed

text \<open>C4 on the small store: alice redeems reward 1.\<close>

theorem redeemReward_balance_stays_nonnegative_witness:
  "\<exists>user' q. getUser (snd (redeemReward demo_env ''alice'' 1 demo_db)) ''alice'' = Some user' \<and>
      u_ecoPoints user' = Some q \<and> 0 \<le> q"
proof -
  have user: "getUser demo_db ''alice'' =
      Some \<lparr>u_id = ''alice'', u_ecoPoints = Some 120, u_carbonFootprint = Some ''12'',
            u_updatedAt = None\<rparr>"
    by (simp add: demo_db_def getUser_def first_row_def)
  have returns: "\<exists>row. fst (redeemReward demo_env ''alice'' 1 demo_db) = Inr row"
    by (simp add: redeemReward_def demo_db_def first_row_def or_zero_def Let_def)
  then obtain row where "redeemReward demo_env ''alice'' 1 demo_db =
      (Inr row, snd (redeemReward demo_env ''alice'' 1 demo_db))"
    by (metis prod.collapse)
  from redeemReward_balance_stays_nonnegative [OF user _ _ this, of 120]
  show ?thesis by simp
qed

text \<open>
  Claim C10. Whenever \<open>redeemReward\<close> throws, the store after the call is the store
  before it, and the error is one of the two messages: both reads and the comparison come
  before the first write.
\<close>

theorem redeemReward_throw_leaves_store:
  assumes "fst (redeemReward e userId rewardId d) = Inl err"
  shows "snd (redeemReward e userId rewardId d) = d \<and>
         (err = Error ''Reward not found'' \<or> err = Error ''Insufficient EcoPoints'')"
  using assms
  by (auto simp add: redeemReward_def Let_def split: option.splits if_splits)

text \<open>C10 on the small store: bob cannot afford reward 1.\<close>

theorem redeemReward_throw_leaves_store_witness:
  "fst (redeemReward demo_env ''bob'' 1 demo_db) = Inl (Error ''Insufficient EcoPoints'') \<and>
   snd (redeemReward demo_env ''bob'' 1 demo_db) = demo_db"
proof -
  have throws: "fst (redeemReward demo_env ''bob'' 1 demo_db) = Inl (Error ''Insufficient EcoPoints'')"
    by (simp add: redeemReward_def demo_db_def first_row_def or_zero_def)
  from redeemReward_throw_leaves_store [OF throws] throws show ?thesis by simp
qed

subsection \<open>Logging waste\<close>





subsection \<open>Joining a cleanup event\<close>

lemma eventParticipants_conflict_pair:
  "eventParticipants_conflict \<lparr>ep_eventId = eventId, ep_userId = userId\<rparr> =
     (\<lambda>r. ep_eventId r = eventId \<and> ep_userId r = userId)"
  by (simp add: fun_eq_iff eventParticipants_conflict_def)

lemma joinCleanupEvent_participants:
  "eventParticipants (snd (joinCleanupEvent eventId userId d)) =
     (if list_ex (\<lambda>r. ep_eventId r = eventId \<and> ep_userId r = userId) (eventParticipants d)
      then eventParticipants d
      else eventParticipants d @ [\<lparr>ep_eventId = eventId, ep_userId = userId\<rparr>])"
  by (simp add: joinCleanupEvent_def Let_def eventParticipants_conflict_pair)

lemma joinCleanupEvent_counters:
  "map ce_currentParticipants (cleanupEvents (snd (joinCleanupEvent eventId userId d))) =
     map (\<lambda>c. if ce_id c = eventId then ce_currentParticipants c + 1 else ce_currentParticipants c)
       (cleanupEvents d)"
  by (simp add: joinCleanupEvent_def Let_def update_where_def)

lemma joinCleanupEvent_ids:
  "map ce_id (cleanupEvents (snd (joinCleanupEvent eventId userId d))) = map ce_id (cleanupEvents d)"
  by (simp add: joinCleanupEvent_def Let_def update_where_def)

lemma counters_by_ids:
  assumes "map ce_id ys = map ce_id xs"
    and "map ce_currentParticipants ys =
           map (\<lambda>c. if ce_id c = i then ce_currentParticipants c + k else ce_currentParticipants c) xs"
    and "map ce_currentParticipants zs =
           map (\<lambda>c. if ce_id c = i then ce_currentParticipants c + 1 else ce_currentParticipants c) ys"
  shows "map ce_currentParticipants zs =
           map (\<lambda>c. if ce_id c = i then ce_currentParticipants c + (k + 1) else ce_currentParticipants c) xs"
  using assms
proof (induction xs arbitrary: ys zs)
  case Nil
  then show ?case by simp
next
  case (Cons x xs)
  then obtain y ys' where ys: "ys = y # ys'" by (cases ys) auto
  with Cons.prems obtain z zs' where zs: "zs = z # zs'" by (cases zs) auto
  from Cons.prems ys zs have "map ce_currentParticipants zs' =
      map (\<lambda>c. if ce_id c = i then ce_currentParticipants c + (k + 1) else ce_currentParticipants c) xs"
    by (intro Cons.IH [of ys' zs']) simp_all
  with Cons.prems ys zs show ?case by auto
qed

text \<open>
  Claim C3. Two calls of \<open>joinCleanupEvent\<close> with the same pair, from a store in which
  the unique key of \<open>eventParticipants\<close> holds for the pair, leave exactly one row of
  the pair: the second call inserts nothing. The counter \<open>currentParticipants\<close> of the
  event goes up by one on each call, so by two in all.
\<close>

theorem joinCleanupEvent_twice:
  assumes unique: "length (filter (\<lambda>r. ep_eventId r = eventId \<and> ep_userId r = userId)
                     (eventParticipants d)) \<le> 1"
  shows "let d1 = snd (joinCleanupEvent eventId userId d);
             d2 = snd (joinCleanupEvent eventId userId d1)
         in length (filter (\<lambda>r. ep_eventId r = eventId \<and> ep_userId r = userId)
                      (eventParticipants d2)) = 1 \<and>
            eventParticipants d2 = eventParticipants d1 \<and>
            map ce_currentParticipants (cleanupEvents d1) =
              map (\<lambda>c. if ce_id c = eventId then ce_currentParticipants c + 1
                        else ce_currentParticipants c) (cleanupEvents d) \<and>
            map ce_currentParticipants (cleanupEvents d2) =
              map (\<lambda>c. if ce_id c = eventId then ce_currentParticipants c + 2
                        else ce_currentParticipants c) (cleanupEvents d)"
proof -
  let ?pair = "\<lambda>r. ep_eventId r = eventId \<and> ep_userId r = userId"
  let ?d1 = "snd (joinCleanupEvent eventId userId d)"
  let ?d2 = "snd (joinCleanupEvent eventId userId ?d1)"
  have ex_iff: "list_ex ?pair xs \<longleftrightarrow> filter ?pair xs \<noteq> []" for xs
    by (induction xs) auto
  have one: "length (filter ?pair (eventParticipants ?d1)) = 1"
  proof (cases "list_ex ?pair (eventParticipants d)")
    case True
    then have "filter ?pair (eventParticipants d) \<noteq> []"
      by (simp add: ex_iff)
    with unique have "length (filter ?pair (eventParticipants d)) = 1"
      by (cases "filter ?pair (eventParticipants d)") auto
    with True show ?thesis
      by (simp add: joinCleanupEvent_participants)
  next
    case False
    then have "filter ?pair (eventParticipants d) = []"
      by (simp add: ex_iff)
    with False show ?thesis
      by (simp add: joinCleanupEvent_participants)
  qed
  then have "filter ?pair (eventParticipants ?d1) \<noteq> []"
    by auto
  then have present: "list_ex ?pair (eventParticipants ?d1)"
    by (simp add: ex_iff)
  have same: "eventParticipants ?d2 = eventParticipants ?d1"
    using present by (subst joinCleanupEvent_participants) simp
  have c1: "map ce_currentParticipants (cleanupEvents ?d1) =
              map (\<lambda>c. if ce_id c = eventId then ce_currentParticipants c + 1
                        else ce_currentParticipants c) (cleanupEvents d)"
    by (rule joinCleanupEvent_counters)
  have c2: "map ce_currentParticipants (cleanupEvents ?d2) =
              map (\<lambda>c. if ce_id c = eventId then ce_currentParticipants c + (1 + 1)
                        else ce_currentParticipants c) (cleanupEvents d)"
    by (rule counters_by_ids [OF joinCleanupEvent_ids c1 joinCleanupEvent_counters])
  from one same c1 c2 show ?thesis
    by (simp add: Let_def)
qed

text \<open>C3 on the small store: bob joins event 5 twice, the counter goes from 3 to 5.\<close>

theorem joinCleanupEvent_twice_witness:
  "eventParticipants (snd (joinCleanupEvent 5 ''bob'' (snd (joinCleanupEvent 5 ''bob'' demo_db)))) =
     [\<lparr>ep_eventId = 5, ep_userId = ''bob''\<rparr>] \<and>
   map ce_currentParticipants (cleanupEvents demo_db) = [3] \<and>
   map ce_currentParticipants
     (cleanupEvents (snd (joinCleanupEvent 5 ''bob'' (snd (joinCleanupEvent 5 ''bob'' demo_db))))) = [5]"
proof -
  have unique: "length (filter (\<lambda>r. ep_eventId r = 5 \<and> ep_userId r = ''bob'')
                     (eventParticipants demo_db)) \<le> 1"
    by (simp add: demo_db_def)
  have first: "eventParticipants (snd (joinCleanupEvent 5 ''bob'' demo_db)) =
      [\<lparr>ep_eventId = 5, ep_userId = ''bob''\<rparr>]"
    by (simp add: joinCleanupEvent_participants demo_db_def)
  have before: "map ce_currentParticipants (cleanupEvents demo_db) = [3]"
    and ids: "map (\<lambda>c. if ce_id c = 5 then ce_currentParticipants c + 2
                        else ce_currentParticipants c) (cleanupEvents demo_db) = [5]"
    by (simp_all add: demo_db_def)
  from joinCleanupEvent_twice [OF unique] first before ids show ?thesis
    by (simp add: Let_def)
qed

subsection \<open>Challenge progress\<close>

text \<open>
  Claim C5. When no row of \<open>userChallengeProgress\<close> has the key (userId, challengeId),
  \<open>updateChallengeProgress\<close> appends a row whose \<open>currentProgress\<close> is the given
  progress; when a row has the key, the call adds the progress to the
  \<open>currentProgress\<close> of that row and inserts nothing.
\<close>

theorem updateChallengeProgress_upsert:
  "(\<not> list_ex (\<lambda>p. ucp_userId p = userId \<and> ucp_challengeId p = challengeId)
         (userChallengeProgress d) \<longrightarrow>
      (\<exists>row. userChallengeProgress (snd (updateChallengeProgress e userId challengeId progress d)) =
                userChallengeProgress d @ [row] \<and>
              ucp_userId row = userId \<and> ucp_challengeId row = challengeId \<and>
              ucp_currentProgress row = progress)) \<and>
   (\<forall>row. first_row (filter (\<lambda>p. ucp_userId p = userId \<and> ucp_challengeId p = challengeId)
              (userChallengeProgress d)) = Some row \<longrightarrow>
      first_row (filter (\<lambda>p. ucp_userId p = userId \<and> ucp_challengeId p = challengeId)
        (userChallengeProgress (snd (updateChallengeProgress e userId challengeId progress d)))) =
        Some (row\<lparr>ucp_currentProgress := ucp_currentProgress row + progress\<rparr>) \<and>
      length (userChallengeProgress (snd (updateChallengeProgress e userId challengeId progress d))) =
        length (userChallengeProgress d))"
proof (intro conjI allI impI)
  assume "\<not> list_ex (\<lambda>p. ucp_userId p = userId \<and> ucp_challengeId p = challengeId)
            (userChallengeProgress d)"
  then show "\<exists>row. userChallengeProgress (snd (updateChallengeProgress e userId challengeId progress d)) =
                userChallengeProgress d @ [row] \<and>
              ucp_userId row = userId \<and> ucp_challengeId row = challengeId \<and>
              ucp_currentProgress row = progress"
    by (simp add: updateChallengeProgress_def Let_def)
next
  let ?target = "\<lambda>p. ucp_userId p = userId \<and> ucp_challengeId p = challengeId"
  fix row
  assume row: "first_row (filter ?target (userChallengeProgress d)) = Some row"
  then have "filter ?target (userChallengeProgress d) \<noteq> []"
    by (auto simp add: first_row_def)
  then have ex: "list_ex ?target (userChallengeProgress d)"
    by (induction "userChallengeProgress d") (auto simp add: list_ex_iff filter_empty_conv)
  then have after: "userChallengeProgress (snd (updateChallengeProgress e userId challengeId progress d)) =
      update_where ?target (\<lambda>p. p\<lparr>ucp_currentProgress := ucp_currentProgress p + progress\<rparr>)
        (userChallengeProgress d)"
    by (simp add: updateChallengeProgress_def Let_def)
  show "first_row (filter ?target
          (userChallengeProgress (snd (updateChallengeProgress e userId challengeId progress d)))) =
        Some (row\<lparr>ucp_currentProgress := ucp_currentProgress row + progress\<rparr>)"
    unfolding after using row by (simp add: first_row_update_where)
  show "length (userChallengeProgress (snd (updateChallengeProgress e userId challengeId progress d))) =
        length (userChallengeProgress d)"
    unfolding after by (simp add: update_where_def)
qed

text \<open>C5 on the small store: a first progress of bob, and more progress of alice.\<close>

theorem updateChallengeProgress_upsert_witness:
  "(\<exists>row. userChallengeProgress (snd (updateChallengeProgress demo_env ''bob'' 2 4 demo_db)) =
            userChallengeProgress demo_db @ [row] \<and>
          ucp_userId row = ''bob'' \<and> ucp_challengeId row = 2 \<and> ucp_currentProgress row = 4) \<and>
   first_row (filter (\<lambda>p. ucp_userId p = ''alice'' \<and> ucp_challengeId p = 2)
     (userChallengeProgress (snd (updateChallengeProgress demo_env ''alice'' 2 4 demo_db)))) =
     Some \<lparr>ucp_userId = ''alice'', ucp_challengeId = 2, ucp_currentProgress = 14,
           ucp_createdAt = 600\<rparr> \<and>
   length (userChallengeProgress (snd (updateChallengeProgress demo_env ''alice'' 2 4 demo_db))) = 1"
proof -
  have absent: "\<not> list_ex (\<lambda>p. ucp_userId p = ''bob'' \<and> ucp_challengeId p = 2)
                   (userChallengeProgress demo_db)"
    by (simp add: demo_db_def)
  have present: "first_row (filter (\<lambda>p. ucp_userId p = ''alice'' \<and> ucp_challengeId p = 2)
                   (userChallengeProgress demo_db)) =
      Some \<lparr>ucp_userId = ''alice'', ucp_challengeId = 2, ucp_currentProgress = 10,
            ucp_createdAt = 600\<rparr>"
    by (simp add: demo_db_def first_row_def)
  have rows: "length (userChallengeProgress demo_db) = 1"
    by (simp add: demo_db_def)
  from updateChallengeProgress_upsert [of "''bob''" 2 demo_db demo_env 4] absent
  have 1: "\<exists>row. userChallengeProgress (snd (updateChallengeProgress demo_env ''bob'' 2 4 demo_db)) =
            userChallengeProgress demo_db @ [row] \<and>
          ucp_userId row = ''bob'' \<and> ucp_challengeId row = 2 \<and> ucp_currentProgress row = 4"
    by blast
  from updateChallengeProgress_upsert [of "''alice''" 2 demo_db demo_env 4] present rows
  have 2: "first_row (filter (\<lambda>p. ucp_userId p = ''alice'' \<and> ucp_challengeId p = 2)
     (userChallengeProgress (snd (updateChallengeProgress demo_env ''alice'' 2 4 demo_db)))) =
     Some \<lparr>ucp_userId = ''alice'', ucp_challengeId = 2, ucp_currentProgress = 14,
           ucp_createdAt = 600\<rparr> \<and>
   length (userChallengeProgress (snd (updateChallengeProgress demo_env ''alice'' 2 4 demo_db))) = 1"
    by simp
  from 1 2 show ?thesis by blast
qed

subsection \<open>Analytics of a user\<close>

text \<open>
  A waste type that is not the name of an inherited property maps to a number: the
  quantities of the entries of that type, added from left to right by the sum of the
  numbers at hand.
\<close>

lemma reduce_step_other_type:
  assumes "we_wasteType w \<noteq> k"
  shows "reduce_step N acc w k = acc k"
  using assms by (simp add: reduce_step_def set_property_def)

lemma reduce_step_number:
  assumes "we_wasteType w = k" and "acc k = Some (Num a)" and "k \<noteq> ''__proto__''"
  shows "reduce_step N acc w k =
           Some (Num (num_add N (if num_truthy N a then a else num_zero N)
                        (parseFloat N (we_quantity w))))"
  using assms
  by (simp add: reduce_step_def set_property_def get_property_def or_zero_value_def js_plus_def)

lemma reduce_step_first:
  assumes "we_wasteType w = k" and "acc k = None" and "Object_prototype k = (None :: 'n js_value option)"
  shows "reduce_step N acc w k =
           Some (Num (num_add N (num_zero N) (parseFloat (N :: 'n Number) (we_quantity w))))"
proof -
  from assms(3) have "k \<noteq> ''__proto__''"
    by (auto simp add: Object_prototype_def)
  with assms show ?thesis
    by (simp add: reduce_step_def set_property_def get_property_def or_zero_value_def js_plus_def)
qed

lemma foldl_reduce_step_number:
  assumes "acc k = Some (Num a)" and "k \<noteq> ''__proto__''"
  shows "foldl (reduce_step N) acc ws k =
           Some (Num (js_sum N a
             (map (\<lambda>w. parseFloat N (we_quantity w)) (filter (\<lambda>w. we_wasteType w = k) ws))))"
  using assms
proof (induction ws arbitrary: acc a)
  case Nil
  then show ?case by simp
next
  case (Cons w ws)
  show ?case
  proof (cases "we_wasteType w = k")
    case True
    let ?a = "num_add N (if num_truthy N a then a else num_zero N) (parseFloat N (we_quantity w))"
    from True Cons.prems have "reduce_step N acc w k = Some (Num ?a)"
      by (rule reduce_step_number)
    from Cons.IH [where acc = "reduce_step N acc w" and a = ?a, OF this Cons.prems(2)] True
    show ?thesis
      by simp
  next
    case False
    with Cons.prems have "reduce_step N acc w k = Some (Num a)"
      by (simp add: reduce_step_other_type)
    from Cons.IH [where acc = "reduce_step N acc w" and a = a, OF this Cons.prems(2)] False
    show ?thesis
      by simp
  qed
qed

lemma foldl_reduce_step_new:
  assumes "acc k = None" and "Object_prototype k = (None :: 'n js_value option)"
  shows "foldl (reduce_step (N :: 'n Number)) acc ws k =
           (if filter (\<lambda>w. we_wasteType w = k) ws = [] then None
            else Some (Num (js_sum N (num_zero N)
              (map (\<lambda>w. parseFloat N (we_quantity w)) (filter (\<lambda>w. we_wasteType w = k) ws)))))"
  using assms(1)
proof (induction ws arbitrary: acc)
  case Nil
  then show ?case by simp
next
  case (Cons w ws)
  from assms(2) have proto: "k \<noteq> ''__proto__''"
    by (auto simp add: Object_prototype_def)
  show ?case
  proof (cases "we_wasteType w = k")
    case True
    let ?a = "num_add N (num_zero N) (parseFloat N (we_quantity w))"
    from True Cons.prems assms(2) have "reduce_step N acc w k = Some (Num ?a)"
      by (rule reduce_step_first)
    from foldl_reduce_step_number [where acc = "reduce_step N acc w" and a = ?a, OF this proto]
      True
    show ?thesis
      by simp
  next
    case False
    with Cons.prems have "reduce_step N acc w k = None"
      by (simp add: reduce_step_other_type)
    from Cons.IH [where acc = "reduce_step N acc w", OF this] False show ?thesis
      by simp
  qed
qed

lemma getUserAnalytics_number_type:
  assumes "Object_prototype k = (None :: 'n js_value option)"
  shows "wasteByType (getUserAnalytics (N :: 'n Number) d userId) k =
           (if filter (\<lambda>w. we_wasteType w = k) (filter (\<lambda>w. we_userId w = userId) (wasteEntries d)) = []
            then None
            else Some (Num (js_sum N (num_zero N)
              (map (\<lambda>w. parseFloat N (we_quantity w))
                 (filter (\<lambda>w. we_wasteType w = k)
                    (filter (\<lambda>w. we_userId w = userId) (wasteEntries d)))))))"
proof -
  have "wasteByType (getUserAnalytics N d userId) k =
      foldl (reduce_step N) Map.empty (filter (\<lambda>w. we_userId w = userId) (wasteEntries d)) k"
    by (simp add: getUserAnalytics_def Let_def)
  also note foldl_reduce_step_new [OF _ assms, of Map.empty N]
  finally show ?thesis by simp
qed

lemma getUserAnalytics_plastic:
  "wasteByType (getUserAnalytics demo_Number demo_db ''alice'') ''plastic'' = Some (Num 5) \<and>
   totalWasteEntries (getUserAnalytics demo_Number demo_db ''alice'') = 2 \<and>
   totalEcoPoints (getUserAnalytics demo_Number demo_db ''alice'') = 120 \<and>
   carbonFootprint (getUserAnalytics demo_Number demo_db ''alice'') = 12"
proof -
  have "Object_prototype ''plastic'' = (None :: int js_value option)"
    by (simp add: Object_prototype_def)
  from getUserAnalytics_number_type [OF this, of demo_Number demo_db "''alice''"]
  have "wasteByType (getUserAnalytics demo_Number demo_db ''alice'') ''plastic'' = Some (Num 5)"
    by (simp add: demo_db_def demo_Number_def)
  moreover have "totalWasteEntries (getUserAnalytics demo_Number demo_db ''alice'') = 2"
    by (simp add: getUserAnalytics_def Let_def demo_db_def)
  moreover have "totalEcoPoints (getUserAnalytics demo_Number demo_db ''alice'') = 120"
    by (simp add: getUserAnalytics_def Let_def demo_db_def first_row_def or_zero_def)
  moreover have "carbonFootprint (getUserAnalytics demo_Number demo_db ''alice'') = 12"
    by (simp add: getUserAnalytics_def Let_def demo_db_def first_row_def or_zero_str_def
        demo_Number_def)
  ultimately show ?thesis by simp
qed

text \<open>
  Claim C6 says that every waste type among the entries of the user maps to the sum of
  the quantities of that type. On the second store carol has logged 2 of a waste type named
  \<open>toString\<close>: \<open>acc[entry.wasteType]\<close> reads the function that \<open>{}\<close> inherits, and
  the result maps the type to the text of that function followed by 2, for every
  arithmetic of the numbers.
\<close>

theorem getUserAnalytics_inherited_type:
  "wasteByType (getUserAnalytics N corner_db ''carol'') ''toString'' =
     Some (Str (''function toString() { [native code] }'' @ num_toString N (parseFloat N ''2''))) \<and>
   wasteByType (getUserAnalytics demo_Number corner_db ''carol'') ''toString'' =
     Some (Str ''function toString() { [native code] }2'')"
proof -
  have entries: "filter (\<lambda>w. we_userId w = ''carol'') (wasteEntries corner_db) =
      [\<lparr>we_userId = ''carol'', we_wasteType = ''toString'', we_quantity = ''2'',
        we_ecoPointsEarned = Some 10, we_createdAt = 100\<rparr>]"
    by (simp add: corner_db_def)
  have inherited: "get_property Map.empty ''toString'' = Some (Builtin ''toString'')"
    by (simp add: get_property_def Object_prototype_def)
  have general: "wasteByType (getUserAnalytics M corner_db ''carol'') ''toString'' =
     Some (Str (''function toString() { [native code] }'' @ num_toString M (parseFloat M ''2'')))"
    for M :: "'m Number"
    by (simp add: getUserAnalytics_def Let_def entries reduce_step_def inherited
        or_zero_value_def js_plus_def set_property_def)
  have shown: "num_toString demo_Number (parseFloat demo_Number ''2'') = ''2''"
    by (simp add: demo_Number_def show_int_def digit_char_def)
  from general [of N] general [of demo_Number] shown show ?thesis
    by simp
qed

subsection \<open>The redemption code\<close>

text \<open>
  The code is \<open>ECO-\<close>, the clock in decimal, a hyphen and a suffix. The suffix has as
  many characters as the text of the random number has after its first two, and six at
  most.
\<close>

lemma redemptionCode_suffix:
  "\<exists>suffix. redemptionCode e = ''ECO-'' @ show_int (now e) @ ''-'' @ suffix \<and>
     length suffix = min 6 (length (random36 e) - 2)"
  by (simp add: redemptionCode_def toUpperCase_def substr_def)

text \<open>
  Claim C7 says that the suffix of every redemption code has six characters. When
  \<open>Math.random()\<close> returns 0.5, its text in base 36 is \<open>0.i\<close>, and the code
  that \<open>redeemReward\<close> stores has a suffix of one character.
\<close>

theorem redeemReward_short_code:
  "fst (redeemReward \<lparr>now = 1700000000000, newId = 8, random36 = ''0.i''\<rparr> ''alice'' 1 demo_db) =
     Inr \<lparr>ur_userId = ''alice'', ur_rewardId = 1, ur_redemptionCode = ''ECO-1700000000000-I'',
          ur_expiresAt = None, ur_redeemedAt = 1700000000000\<rparr>"
proof -
  have code: "redemptionCode \<lparr>now = 1700000000000, newId = 8, random36 = ''0.i''\<rparr> =
      ''ECO-1700000000000-I''"
    by (simp add: redemptionCode_def show_int_def digit_char_def substr_def toUpperCase_def
        upper_char_def)
  have reward: "first_row (filter (\<lambda>r. r_id r = 1) (rewards demo_db)) =
      Some \<lparr>r_id = 1, r_ecoPointsCost = 50, r_validUntil = None, r_isActive = True\<rparr>"
    by (simp add: demo_db_def first_row_def)
  have alice: "getUser demo_db ''alice'' =
      Some \<lparr>u_id = ''alice'', u_ecoPoints = Some 120, u_carbonFootprint = Some ''12'',
            u_updatedAt = None\<rparr>"
    by (simp add: demo_db_def getUser_def first_row_def)
  show ?thesis
    by (simp add: redeemReward_success [OF reward alice] or_zero_def code)
qed

subsection \<open>No row is deleted\<close>

lemma map_key_update_where:
  assumes "\<And>r. k (f r) = k r"
  shows "map k (update_where p f t) = map k t"
  using assms by (induction t) (simp_all add: update_where_def)

lemma rows_kept_refl: "rows_kept d d"
  by (simp add: rows_kept_def)

lemma upsertUser_rows_kept: "rows_kept d (snd (upsertUser e userData d))"
  by (cases "first_row (filter (\<lambda>u. u_id u = uu_id userData) (users d))")
    (simp_all add: upsertUser_def rows_kept_def Let_def map_key_update_where)

lemma createWasteEntry_rows_kept: "rows_kept d (snd (createWasteEntry e entry d))"
  by (simp add: createWasteEntry_def rows_kept_def Let_def map_key_update_where)

lemma createPickupSchedule_rows_kept: "rows_kept d (snd (createPickupSchedule e schedule d))"
  by (simp add: createPickupSchedule_def rows_kept_def Let_def)

lemma updatePickupScheduleStatus_rows_kept:
  "rows_kept d (snd (updatePickupScheduleStatus e i status d))"
  by (simp add: updatePickupScheduleStatus_def rows_kept_def Let_def map_key_update_where)

lemma createCommunityReport_rows_kept: "rows_kept d (snd (createCommunityReport e report d))"
  by (simp add: createCommunityReport_def rows_kept_def Let_def)

lemma updateCommunityReportStatus_rows_kept:
  "rows_kept d (snd (updateCommunityReportStatus e i status d))"
  by (simp add: updateCommunityReportStatus_def rows_kept_def Let_def map_key_update_where)

lemma createCleanupEvent_rows_kept: "rows_kept d (snd (createCleanupEvent e event d))"
  by (simp add: createCleanupEvent_def rows_kept_def Let_def)

lemma joinCleanupEvent_rows_kept: "rows_kept d (snd (joinCleanupEvent eventId userId d))"
  by (simp add: joinCleanupEvent_def rows_kept_def Let_def map_key_update_where)

lemma updateChallengeProgress_rows_kept:
  "rows_kept d (snd (updateChallengeProgress e userId challengeId progress d))"
  by (simp add: updateChallengeProgress_def rows_kept_def Let_def map_key_update_where)

lemma redeemReward_rows_kept: "rows_kept d (snd (redeemReward e userId rewardId d))"
  by (simp add: redeemReward_def rows_kept_def Let_def map_key_update_where
      split: option.splits)

text \<open>
  Claim C8. No method of \<open>DatabaseStorage\<close> deletes a row: after any call, whether it
  returns or throws, every row that was in the store is still there, possibly with
  updated fields.
\<close>

theorem store_after_rows_kept: "rows_kept d (store_after e c d)"
proof (cases c)
  case (UpsertUser userData)
  then show ?thesis by (simp add: upsertUser_rows_kept)
next
  case (CreateWasteEntry entry)
  then show ?thesis by (simp add: createWasteEntry_rows_kept)
next
  case (CreatePickupSchedule schedule)
  then show ?thesis by (simp add: createPickupSchedule_rows_kept)
next
  case (UpdatePickupScheduleStatus i status)
  then show ?thesis by (simp add: updatePickupScheduleStatus_rows_kept)
next
  case (CreateCommunityReport report)
  then show ?thesis by (simp add: createCommunityReport_rows_kept)
next
  case (UpdateCommunityReportStatus i status)
  then show ?thesis by (simp add: updateCommunityReportStatus_rows_kept)
next
  case (CreateCleanupEvent event)
  then show ?thesis by (simp add: createCleanupEvent_rows_kept)
next
  case (JoinCleanupEvent eventId userId)
  then show ?thesis by (simp add: joinCleanupEvent_rows_kept)
next
  case (UpdateChallengeProgress userId challengeId progress)
  then show ?thesis by (simp add: updateChallengeProgress_rows_kept)
next
  case (RedeemReward userId rewardId)
  then show ?thesis by (simp add: redeemReward_rows_kept)
qed (simp_all add: rows_kept_refl)

subsection \<open>The status of a community report\<close>

text \<open>
  Claim C9 says that a status only moves from reported to investigating and from
  investigating to resolved. On the small store, \<open>updateCommunityReportStatus\<close> moves
  report 1 from resolved back to reported, which is no step of the lifecycle.
\<close>

theorem report_status_leaves_lifecycle:
  "map cr_status (communityReports demo_db) = [''resolved''] \<and>
   map cr_status
     (communityReports (snd (updateCommunityReportStatus demo_env 1 ''reported'' demo_db))) =
     [''reported''] \<and>
   \<not> lifecycle_step ''resolved'' ''reported''"
  by (simp add: updateCommunityReportStatus_def demo_db_def update_where_def lifecycle_step_def
      Let_def)

text \<open>
  Claim C9 as amended. \<open>updateCommunityReportStatus\<close> stores the status it is given on
  the report with the given id, whatever the status of the report was and whatever the
  new one is, and returns the updated report; \<open>resolvedAt\<close> becomes the time of the
  call when the new status is \<open>resolved\<close> and keeps its value otherwise. The order
  reported, investigating, resolved is not enforced by the storage class.
\<close>

theorem updateCommunityReportStatus_sets_given_status:
  assumes "first_row (filter (\<lambda>r. cr_id r = i) (communityReports d)) = Some report"
  shows "fst (updateCommunityReportStatus e i status d) =
           Some (report\<lparr>cr_status := status,
                        cr_resolvedAt :=
                          (if status = ''resolved'' then Some (now e) else cr_resolvedAt report)\<rparr>) \<and>
         first_row (filter (\<lambda>r. cr_id r = i)
           (communityReports (snd (updateCommunityReportStatus e i status d)))) =
           fst (updateCommunityReportStatus e i status d) \<and>
         map cr_id (communityReports (snd (updateCommunityReportStatus e i status d))) =
           map cr_id (communityReports d)"
proof -
  let ?upd = "\<lambda>r. r\<lparr>cr_status := status,
                       cr_resolvedAt :=
                         (if status = ''resolved'' then Some (now e) else cr_resolvedAt r)\<rparr>"
  have result: "fst (updateCommunityReportStatus e i status d) =
      map_option ?upd (first_row (filter (\<lambda>r. cr_id r = i) (communityReports d)))"
    by (cases "filter (\<lambda>r. cr_id r = i) (communityReports d)")
      (simp_all add: updateCommunityReportStatus_def Let_def first_row_def)
  have store: "communityReports (snd (updateCommunityReportStatus e i status d)) =
      update_where (\<lambda>r. cr_id r = i) ?upd (communityReports d)"
    by (simp add: updateCommunityReportStatus_def Let_def)
  have stored: "first_row (filter (\<lambda>r. cr_id r = i)
           (communityReports (snd (updateCommunityReportStatus e i status d)))) =
      map_option ?upd (first_row (filter (\<lambda>r. cr_id r = i) (communityReports d)))"
    unfolding store by (rule first_row_update_where) simp
  have ids: "map cr_id (communityReports (snd (updateCommunityReportStatus e i status d))) =
           map cr_id (communityReports d)"
    unfolding store by (rule map_key_update_where) simp
  from result stored ids assms show ?thesis
    by simp
qed

text \<open>The amended C9 on the small store: report 1 is set back to reported.\<close>

theorem updateCommunityReportStatus_sets_given_status_witness:
  "fst (updateCommunityReportStatus demo_env 1 ''reported'' demo_db) =
     Some \<lparr>cr_id = 1, cr_description = ''Overflowing bin'', cr_status = ''reported'',
           cr_createdAt = 400, cr_resolvedAt = Some 500\<rparr> \<and>
   first_row (filter (\<lambda>r. cr_id r = 1)
     (communityReports (snd (updateCommunityReportStatus demo_env 1 ''reported'' demo_db)))) =
     fst (updateCommunityReportStatus demo_env 1 ''reported'' demo_db)"
proof -
  have report: "first_row (filter (\<lambda>r. cr_id r = 1) (communityReports demo_db)) =
      Some \<lparr>cr_id = 1, cr_description = ''Overflowing bin'', cr_status = ''resolved'',
            cr_createdAt = 400, cr_resolvedAt = Some 500\<rparr>"
    by (simp add: demo_db_def first_row_def)
  from updateCommunityReportStatus_sets_given_status [OF report, of demo_env "''reported''"]
  show ?thesis by simp
qed

end
